theory Spec2Isabelle
  imports Main
begin

section \<open>Python built-ins the program relies on\<close>

text \<open>
  Python strings are modelled as \<^typ>\<open>string\<close>, the UTF-8 bytes of the text. The
  only character of the prompt template outside ASCII is the arrow U+2192, three bytes.
\<close>

definition newline :: string where
  "newline = [CHR 0x0A]"

definition arrow :: string where
  "arrow = [CHR 0xE2, CHR 0x86, CHR 0x92]"

text \<open>\<^verbatim>\<open>sep.join(xs)\<close>.\<close>

fun join :: "string \<Rightarrow> string list \<Rightarrow> string" where
  "join sep [] = []"
| "join sep [x] = x"
| "join sep (x # y # ys) = x @ sep @ join sep (y # ys)"

text \<open>
  How an f-string prints an \<^verbatim>\<open>int\<close>: decimal digits, most significant first, with a
  minus sign for a negative number.
\<close>

definition digit_char :: "nat \<Rightarrow> char" where
  "digit_char d = ''0123456789'' ! d"

fun str_nat :: "nat \<Rightarrow> string" where
  "str_nat n = (if n < 10 then [digit_char n] else str_nat (n div 10) @ [digit_char (n mod 10)])"

declare str_nat.simps [simp del]

definition str_int :: "int \<Rightarrow> string" where
  "str_int i = (if i < 0 then ''-'' @ str_nat (nat (- i)) else str_nat (nat i))"

text \<open>
  \<^verbatim>\<open>s.upper()\<close> on strings of ASCII characters: the 26 lower-case letters are
  mapped and every other byte is left as it is. Python maps every cased code point and
  can change the length of the text (U+00DF becomes \<^verbatim>\<open>SS\<close>), so outside ASCII the
  model and Python differ. The command line admits the server types \<^verbatim>\<open>remote\<close> and
  \<^verbatim>\<open>local\<close> only, and no statement below depends on the upper-cased text.
\<close>

definition upper_char :: "char \<Rightarrow> char" where
  "upper_char c =
     (case map_of (zip ''abcdefghijklmnopqrstuvwxyz'' ''ABCDEFGHIJKLMNOPQRSTUVWXYZ'') c of
        Some u \<Rightarrow> u
      | None \<Rightarrow> c)"

definition upper :: "string \<Rightarrow> string" where
  "upper s = map upper_char s"

text \<open>
  The truth value of an \<^verbatim>\<open>Optional[str]\<close> in a condition: \<^verbatim>\<open>None\<close> and the empty
  string are false.
\<close>

definition truthy :: "string option \<Rightarrow> bool" where
  "truthy s = (case s of None \<Rightarrow> False | Some t \<Rightarrow> t \<noteq> [])"

section \<open>prompts.py: the system prompt\<close>

subsection \<open>The fixed text of the template\<close>

text \<open>Lines 38 to 42 of prompts.py: the role statement and the opening tag of the mission parameters.\<close>

definition role_lines :: "string list" where
  \<open>role_lines =
   [ ''<role>''
   , ''You are Meta-Everything Agent, an advanced autonomous problem-solving system implementing metacognitive reasoning with continuous self-assessment and adaptation. You systematically tackle any challenge through intelligent tool selection, dynamic capability creation, and cross-session learning.''
   , ''</role>''
   , ''''
   , ''<mission_parameters>''
   ]\<close>

text \<open>Lines 49 to 87: from the closing tag of the mission parameters to the swarm example, up to the line before the interpolated swarm configuration.\<close>

definition architecture_lines :: "string list" where
  \<open>architecture_lines =
   [ ''</mission_parameters>''
   , ''''
   , ''<cognitive_architecture>''
   , ''## Memory Systems''
   , ''- Working Memory: Current problem state and active operations''
   , ''- Episodic Memory: Past experiences stored via mem0_memory with user_id="meta_agent"''
   , ''- Semantic Memory: Domain knowledge and learned patterns (LLM knowledge + stored insights)''
   , ''- Procedural Memory: Tool registry + dynamic tool creation capability''
   , ''</cognitive_architecture>''
   , ''''
   , ''<meta_capabilities>''
   , ''## 1. META-AGENT (Dynamic Agent Spawning)''
   , ''Deploy specialized agents for complex subtasks:''
   , ''''
   , ''**Task Format (KEEP CONCISE - Max 120 words):**''
   , ''```''
   , ''FIRST ACTION: mem0_memory(action="list", user_id="meta_agent") to retrieve all past findings''
   , ''CONTEXT: [What has been done: tools used, solutions found, progress made]''
   , ''OBJECTIVE: [ONE specific goal, not general exploration]''
   , ''AVOID: [List what NOT to repeat based on memory retrieval]''
   , ''FOCUS: [Specific area/technique to explore]''
   , ''SUCCESS: [Clear, measurable outcome]''
   , ''```''
   , ''''
   , ''**CRITICAL: Each swarm agent MUST:**''
   , ''1. First retrieve memories with mem0_memory to understand completed work''
   , ''2. Analyze retrieved findings before taking any actions''
   , ''''
   , ''**Usage Example:**''
   , ''```python''
   , ''swarm(''
   , ''    task=f"FIRST ACTION: mem0_memory(action='list', user_id='meta_agent')''
   , ''CONTEXT: Built basic API client, implemented GET/POST methods''
   , ''OBJECTIVE: Add authentication handling to existing API client''
   , ''AVOID: Re-implementing basic HTTP methods already completed''
   , ''FOCUS: OAuth2 and JWT authentication patterns''
   , ''SUCCESS: Working auth flow with token refresh capability",''
   , ''    swarm_size=3,''
   , ''    coordination_pattern="collaborative",''
   ]\<close>

text \<open>Lines 89 to 154: the rest of the capabilities and the metacognitive framework, up to the heading of the step budget.\<close>

definition capabilities_lines :: "string list" where
  \<open>capabilities_lines =
   [ ''    tools=["shell", "editor", "load_tool", "http_request", "mem0_memory"]''
   , '')''
   , ''```''
   , ''''
   , ''## 2. META-TOOLING (Runtime Tool Creation)''
   , ''Create tools when existing ones are insufficient:''
   , ''```python''
   , ''editor(action="create", path="tools/custom_tool.py", content="...")''
   , ''python_repl(code="test code")''
   , ''load_tool(path="tools/custom_tool.py")''
   , ''```''
   , ''''
   , ''## 3. META-LEARNING (Cross-Session Knowledge)''
   , ''```python''
   , ''mem0_memory(action="retrieve", query="similar problem", user_id="meta_agent")''
   , ''mem0_memory(''
   , ''    action="store",''
   , ''    content="strategy: [what worked]",''
   , ''    user_id="meta_agent",''
   , ''    metadata={"type": "solution", "domain": "...", "success": True}''
   , '')''
   , ''```''
   , ''''
   , ''## 4. META-COGNITION (Self-Reflection)''
   , ''Continuously assess and adapt:''
   , ''```python''
   , ''think(''
   , ''    prompt="Analyze current approach",''
   , ''    considerations=["confidence level", "alternative strategies", "tool requirements"]''
   , '')''
   , ''```''
   , ''''
   , ''## 5. TIME AWARENESS (Temporal Context)''
   , ''Track time for scheduling, deadlines, and temporal analysis:''
   , ''```python''
   , ''current_time()''
   , ''''
   , ''current_time(timezone="US/Pacific")''
   , ''current_time(timezone="Europe/London")''
   , ''current_time(timezone="Asia/Tokyo")''
   , ''''
   , ''timestamp = current_time()''
   , ''mem0_memory(''
   , ''    action="store",''
   , ''    content=f"Task completed at {timestamp}",''
   , ''    user_id="meta_agent",''
   , ''    metadata={"timestamp": timestamp, "type": "completion"}''
   , '')''
   , ''```''
   , ''</meta_capabilities>''
   , ''''
   , ''<metacognitive_framework>''
   , ''## Confidence-Based Execution''
   , ''- **High Confidence (>80%)**: Direct execution with existing tools''
   , ''- **Medium Confidence (50-80%)**: Deep reflection, possible tool creation''
   , ''- **Low Confidence (<50%)**: Spawn expert agents, extensive memory search''
   , ''''
   , ''## Adaptive Strategy Selection''
   , ''1. Assess problem complexity and domain''
   , ''2. Evaluate available tools and past experiences''
   , ''3. Select approach based on confidence:''
   , ''   - High '' @ arrow @ '' Specialized tools''
   , ''   - Medium '' @ arrow @ '' Create tools or parallel exploration''
   , ''   - Low '' @ arrow @ '' Multi-agent swarm deployment''
   , ''''
   , ''## Step Budget Awareness''
   ]\<close>

text \<open>Lines 157 to 233: the fixed remainder of the prompt.\<close>

definition protocol_lines :: "string list" where
  \<open>protocol_lines =
   [ ''- If approaching limit: Summarize progress and call stop()''
   , ''</metacognitive_framework>''
   , ''''
   , ''<operational_protocols>''
   , ''## Memory Protocol''
   , ''**MANDATORY**: Store insights after:''
   , ''- Successful problem solutions''
   , ''- Tool creation (with code and use case)''
   , ''- Failed attempts (with lessons learned)''
   , ''- Domain knowledge discoveries''
   , ''- Performance optimizations''
   , ''''
   , ''Format:''
   , ''```python''
   , ''mem0_memory(''
   , ''    action="store",''
   , ''    content="[INSIGHT] [CONTEXT] [OUTCOME] [REUSABILITY]",''
   , ''    user_id="meta_agent",''
   , ''    metadata={"type": "tool|strategy|knowledge|failure", "domain": "...", "confidence": "X%"}''
   , '')''
   , ''```''
   , ''''
   , ''## Swarm Deployment Protocol''
   , ''**Use when**: Problem requires multiple perspectives, parallel exploration, or specialized expertise''
   , ''**Configuration**: Always include mem0_memory in tools for knowledge sharing''
   , ''**Coordination**: Define clear roles and expected outputs for each agent''
   , ''''
   , ''## Tool Creation Protocol''
   , ''1. Identify capability gap''
   , ''2. Design tool specification''
   , ''3. Implement with editor''
   , ''4. Test with python_repl''
   , ''5. Store tool and use case in memory''
   , ''6. Load and deploy''
   , ''''
   , ''## Completion Protocol''
   , ''Call stop() when:''
   , ''- Objective is fully achieved''
   , ''- Unable to proceed (explain limitations)''
   , ''- Step budget approaching (summarize progress)''
   , ''''
   , ''Format:''
   , ''```python''
   , ''stop(reason="Objective achieved: [specific outcome]")''
   , ''stop(reason="Cannot proceed: [specific limitation]")''
   , ''stop(reason="Step budget exhausted. Progress: [summary of achievements]")''
   , ''```''
   , ''</operational_protocols>''
   , ''''
   , ''<execution_patterns>''
   , ''## Problem-Solving Flow''
   , ''1. **Initialize**: Check memory for similar problems''
   , ''2. **Analyze**: Understand requirements and constraints''
   , ''3. **Plan**: Select strategy based on confidence and remaining steps''
   , ''4. **Execute**: Implement with appropriate tools/agents''
   , ''5. **Reflect**: Assess outcomes and adapt if needed''
   , ''6. **Learn**: Store insights for future use''
   , ''7. **Complete**: Call stop() with clear outcome''
   , ''''
   , ''## Dynamic Adaptation''
   , ''- Monitor progress continuously against step budget''
   , ''- Adjust strategy based on intermediate results''
   , ''- Create tools when patterns emerge''
   , ''- Spawn agents when complexity increases''
   , ''- Store all valuable insights''
   , ''</execution_patterns>''
   , ''''
   , ''<key_principles>''
   , ''- **Unlimited Potential**: You can create any tool or capability needed''
   , ''- **Continuous Evolution**: Every problem makes you more capable''
   , ''- **Intelligent Adaptation**: Match approach to problem characteristics''
   , ''- **Persistent Learning**: Knowledge accumulates across sessions''
   , ''- **Autonomous Completion**: Self-determine when objectives are met''
   , ''- **Resource Awareness**: Work efficiently within step constraints''
   , ''''
   , ''Remember: You are Meta-Everything Agent - a system that evolves beyond its initial capabilities. Through tool creation, agent orchestration, and persistent learning, you adapt to solve any challenge. Your growth is bounded only by imagination and the problems you encounter.''
   , ''</key_principles>''
   ]\<close>

subsection \<open>get_meta_system_prompt\<close>

text \<open>
  Line 27: the urgency level of a number of remaining steps. The source keeps the level
  as one of three strings.
\<close>

definition urgency :: "int \<Rightarrow> string" where
  "urgency remaining_steps =
     (if remaining_steps < 3 then ''HIGH''
      else if remaining_steps < 7 then ''MEDIUM''
      else ''LOW'')"

text \<open>Lines 29 to 34: the model settings shown in the swarm example.\<close>

definition swarm_config_local :: string where
  \<open>swarm_config_local =
     join newline
       [ ''model_provider="ollama",''
       , ''    model_settings={"model_id": "llama3.2:3b", "host": "http://localhost:11434"},''
       ]\<close>

definition swarm_config_remote :: string where
  \<open>swarm_config_remote =
     join newline
       [ ''model_provider="bedrock",''
       , ''    model_settings={"model_id": "us.anthropic.claude-3-7-sonnet-20250219-v1:0"},''
       ]\<close>

text \<open>
  Lines 38 to 233: the f-string, as a function of the local variables it interpolates.
  Every element of the list is one line of the template.
\<close>

definition prompt_text ::
  "string \<Rightarrow> int \<Rightarrow> int \<Rightarrow> int \<Rightarrow> string \<Rightarrow> string \<Rightarrow> string \<Rightarrow> string \<Rightarrow> string" where
  "prompt_text objective current_step max_steps remaining_steps urgency_level server_type
       tools_context swarm_config =
     join newline
       (role_lines @
        [ ''- Objective: '' @ objective
        , ''- Current Step: '' @ str_int current_step @ ''/'' @ str_int max_steps
        , ''- Remaining Steps: '' @ str_int remaining_steps
        , ''- Urgency Level: '' @ urgency_level
        , ''- Server Type: '' @ upper server_type
        , ''- Memory System: ENABLED'' @ tools_context
        ] @
        architecture_lines @
        [ ''    '' @ swarm_config ] @
        capabilities_lines @
        [ ''- Current Progress: '' @ str_int current_step @ ''/'' @ str_int max_steps @
            '' steps used''
        , ''- Urgency: '' @ urgency_level @ '' - '' @
            (if urgency_level = ''HIGH'' then ''Complete core objectives immediately''
             else if urgency_level = ''MEDIUM'' then ''Balance thoroughness with efficiency''
             else ''Explore comprehensively'')
        ] @
        protocol_lines)"

definition get_meta_system_prompt ::
  "string \<Rightarrow> int \<Rightarrow> int \<Rightarrow> string \<Rightarrow> string option \<Rightarrow> string" where
  "get_meta_system_prompt objective current_step max_steps server_type tools_available =
     (let remaining_steps = max_steps - current_step;
          swarm_config =
            (if server_type = ''local'' then swarm_config_local else swarm_config_remote);
          tools_context =
            (case tools_available of
               None \<Rightarrow> []
             | Some t \<Rightarrow> if t \<noteq> [] then newline @ ''- Available Tools: '' @ t else [])
      in prompt_text objective current_step max_steps remaining_steps
           (urgency remaining_steps) server_type tools_context swarm_config)"

text \<open>Lines 237 to 242: the default prompt of the module.\<close>

definition META_SYSTEM_PROMPT :: string where
  "META_SYSTEM_PROMPT = get_meta_system_prompt ''General problem solving'' 1 10 ''remote'' None"

section \<open>agent.py: MetaEverythingAgent\<close>

subsection \<open>What the collaborators can do\<close>

text \<open>
  What a call can raise. \<open>Exception s\<close> is an instance of Python's class
  \<^verbatim>\<open>Exception\<close> (or of a subclass) whose \<^verbatim>\<open>str()\<close> is \<open>s\<close>;
  \<open>BaseException s\<close> is an instance of \<^verbatim>\<open>BaseException\<close> outside
  \<^verbatim>\<open>Exception\<close> (\<^verbatim>\<open>KeyboardInterrupt\<close>, \<^verbatim>\<open>SystemExit\<close>), which a handler
  \<^verbatim>\<open>except Exception\<close> does not catch.
\<close>

datatype raised = Exception string | BaseException string

text \<open>The calls made on the module's logger, in order.\<close>

datatype log_level = INFO | WARNING

type_synonym log_record = "log_level \<times> string"

text \<open>
  A tool object, as far as line 118 looks at it: its \<^verbatim>\<open>name\<close> attribute when it has
  one, and its \<^verbatim>\<open>str()\<close>.
\<close>

datatype tool = Tool (name_attr: "string option") (str_tool: string)

definition tool_label :: "tool \<Rightarrow> string" where
  "tool_label t = (case name_attr t of Some n \<Rightarrow> n | None \<Rightarrow> str_tool t)"

text \<open>
  The memory tool \<^verbatim>\<open>self.tool.mem0_memory(action, query, user_id)\<close>: it returns the
  memories it found or raises.
\<close>

type_synonym memory_tool = "string \<Rightarrow> string \<Rightarrow> string \<Rightarrow> raised + string list"

text \<open>
  The base class's \<^verbatim>\<open>Agent.__call__\<close>, the delegated reasoning turn. A request is
  the system prompt in force and the message passed. The base agent keeps its
  conversation, so the outcome of a turn is a function of every request made so far,
  the current one last: a result, or what the turn raised.
\<close>

type_synonym request = "string \<times> string"

type_synonym engine = "request list \<Rightarrow> raised + string"

subsection \<open>The attributes of the agent\<close>

record agent =
  server_type :: string
  objective :: "string option"
  max_steps :: int
  current_step :: int
  tools_list :: string
  system_prompt :: string
  created_tools :: "string list"
  spawned_agents :: "string list"
  learning_count :: int

subsection \<open>_initialize_context (lines 172 to 184)\<close>

text \<open>
  The method changes no attribute: it returns the log records it wrote, or the
  exception that left it.
\<close>

definition initialize_context :: "memory_tool \<Rightarrow> string \<Rightarrow> raised + log_record list" where
  "initialize_context mem0_memory objective' =
     (case mem0_memory ''retrieve'' objective' ''meta_agent'' of
        Inr memories \<Rightarrow>
          Inr (if memories \<noteq> [] \<and> length memories > 0
               then [(INFO, ''Found '' @ str_int (int (length memories)) @ '' relevant memories'')]
               else [])
      | Inl (Exception e) \<Rightarrow> Inr [(WARNING, ''Memory initialization failed: '' @ e)]
      | Inl (BaseException e) \<Rightarrow> Inl (BaseException e))"

subsection \<open>__init__ (lines 39 to 143)\<close>

text \<open>
  The constructor, called with no extra keyword arguments, as \<^verbatim>\<open>main.py\<close> calls it.
  \<open>builtin_tools\<close> are the ten tool objects of lines 61 to 72, in that order. The
  choice of the model configuration (lines 78 to 112) is handed to the base class and
  read by nothing below, so \<^verbatim>\<open>model_id\<close> and \<^verbatim>\<open>thinking\<close> are left out. The result is
  the new agent with the log records written, or the exception that left the
  constructor.
\<close>

definition init ::
  "tool list \<Rightarrow> memory_tool \<Rightarrow> string \<Rightarrow> string option \<Rightarrow> int \<Rightarrow> tool list option
     \<Rightarrow> raised + (agent \<times> log_record list)" where
  "init builtin_tools mem0_memory server_type' objective' max_steps' additional_tools =
     (let meta_tools =
            (case additional_tools of
               None \<Rightarrow> builtin_tools
             | Some ts \<Rightarrow> if ts \<noteq> [] then builtin_tools @ ts else builtin_tools);
          tools_list' = join '', '' (map tool_label meta_tools);
          system_prompt' =
            (case objective' of
               None \<Rightarrow> ''You are MetaAgent, an adaptive AI system.''
             | Some obj \<Rightarrow>
                 if obj \<noteq> []
                 then get_meta_system_prompt obj 1 max_steps' server_type' (Some tools_list')
                 else ''You are MetaAgent, an adaptive AI system.'');
          self =
            \<lparr> server_type = server_type', objective = objective', max_steps = max_steps',
              current_step = 0, tools_list = tools_list', system_prompt = system_prompt',
              created_tools = [], spawned_agents = [], learning_count = 0 \<rparr>
      in case objective' of
           None \<Rightarrow> Inr (self, [])
         | Some obj \<Rightarrow>
             if obj \<noteq> []
             then (case initialize_context mem0_memory obj of
                     Inl e \<Rightarrow> Inl e
                   | Inr records \<Rightarrow> Inr (self, records))
             else Inr (self, []))"

subsection \<open>__call__ (lines 145 to 170)\<close>

text \<open>
  One execution turn. The state is the agent and the requests delegated so far; the
  result is the new state and the outcome of the base class's call, returned or raised
  as it is: the source has no handler around it. The attributes are assigned before
  the base class is called, so they keep their new values when it raises.
\<close>

definition call ::
  "engine \<Rightarrow> agent \<times> request list \<Rightarrow> string option
     \<Rightarrow> (agent \<times> request list) \<times> (raised + string)" where
  "call super_call w message =
     (let self1 = (fst w)\<lparr>current_step := current_step (fst w) + 1\<rparr>;
          self2 =
            (case objective self1 of
               None \<Rightarrow> self1
             | Some obj \<Rightarrow>
                 if obj \<noteq> [] \<and> current_step self1 \<le> max_steps self1
                 then self1\<lparr>system_prompt :=
                        get_meta_system_prompt obj (current_step self1) (max_steps self1)
                          (server_type self1) (Some (tools_list self1))\<rparr>
                 else self1);
          continue_message =
            ''Continue working on the objective. This is step '' @
              str_int (current_step self2) @ '' of '' @ str_int (max_steps self2) @ ''.'';
          message' =
            (case message of
               Some m \<Rightarrow> m
             | None \<Rightarrow>
                 (case objective self2 of
                    None \<Rightarrow> ''How can I help you today?''
                  | Some obj \<Rightarrow>
                      if obj \<noteq> [] then continue_message else ''How can I help you today?''));
          requests = snd w @ [(system_prompt self2, message')]
      in ((self2, requests), super_call requests))"

text \<open>
  A caller that invokes the agent once for each message of a list and goes on whatever
  a turn returned or raised: the states a session reaches by any number of turns.
\<close>

fun turns :: "engine \<Rightarrow> agent \<times> request list \<Rightarrow> string option list \<Rightarrow> agent \<times> request list" where
  "turns super_call w [] = w"
| "turns super_call w (m # ms) = turns super_call (fst (call super_call w m)) ms"

subsection \<open>reset and get_execution_summary (lines 186 to 200)\<close>

definition reset :: "agent \<Rightarrow> agent" where
  "reset self =
     self\<lparr>current_step := 0, created_tools := [], spawned_agents := [], learning_count := 0\<rparr>"

record execution_summary =
  steps_taken :: int
  tools_created :: "string list"
  agents_spawned :: "string list"
  learnings_stored :: int

definition get_execution_summary :: "agent \<Rightarrow> execution_summary" where
  "get_execution_summary self =
     \<lparr> steps_taken = current_step self, tools_created = created_tools self,
       agents_spawned = spawned_agents self, learnings_stored = learning_count self \<rparr>"

section \<open>Concrete collaborators and sessions\<close>

text \<open>Two tools, one with a \<^verbatim>\<open>name\<close> attribute and one without.\<close>

definition example_tools :: "tool list" where
  "example_tools = [Tool (Some ''shell'') ''<shell>'', Tool None ''<module stop>'']"

text \<open>A memory store that finds nothing, and one whose retrieval fails.\<close>

definition no_memories :: memory_tool where
  "no_memories action query user_id = Inr []"

definition failing_memory :: memory_tool where
  "failing_memory action query user_id = Inl (Exception ''store offline'')"

text \<open>A reasoning engine that answers every turn, and one that raises on every turn.\<close>

definition answering_engine :: engine where
  "answering_engine requests = Inr ''ok''"

definition failing_engine :: engine where
  "failing_engine requests = Inl (Exception ''model unavailable'')"

text \<open>
  The agent that \<open>init example_tools no_memories ''remote'' (Some ''x'') M None\<close>
  constructs (lemma \<open>init_example\<close>).
\<close>

definition example_agent :: "int \<Rightarrow> agent" where
  "example_agent M =
     \<lparr> server_type = ''remote'', objective = Some ''x'', max_steps = M, current_step = 0,
       tools_list = ''shell, <module stop>'',
       system_prompt = get_meta_system_prompt ''x'' 1 M ''remote'' (Some ''shell, <module stop>''),
       created_tools = [], spawned_agents = [], learning_count = 0 \<rparr>"

section \<open>Auxiliary facts\<close>

lemma join_append:
  "xs \<noteq> [] \<Longrightarrow> ys \<noteq> [] \<Longrightarrow> join sep (xs @ ys) = join sep xs @ sep @ join sep ys"
  by (induction sep xs rule: join.induct) (auto simp: neq_Nil_conv)

lemma role_lines_nonempty: "role_lines \<noteq> []"
  by (simp add: role_lines_def)

lemma prompt_text_split:
  "\<exists>rest. prompt_text obj cs ms r u st tc sc =
     join newline role_lines @ newline @ ''- Objective: '' @ obj @ newline @
     ''- Current Step: '' @ str_int cs @ ''/'' @ str_int ms @ newline @ rest"
  unfolding prompt_text_def
  by (simp add: join_append role_lines_nonempty)

lemma get_meta_system_prompt_split:
  "\<exists>rest. get_meta_system_prompt obj cs ms st tools =
     join newline role_lines @ newline @ ''- Objective: '' @ obj @ newline @
     ''- Current Step: '' @ str_int cs @ ''/'' @ str_int ms @ newline @ rest"
  unfolding get_meta_system_prompt_def Let_def by (rule prompt_text_split)

lemma str_int_digits:
  "str_int 0 = ''0''" "str_int 1 = ''1''" "str_int 2 = ''2''" "str_int 3 = ''3''"
  "str_int 4 = ''4''" "str_int 8 = ''8''" "str_int 9 = ''9''" "str_int 10 = ''10''"
  by (simp_all add: str_int_def str_nat.simps digit_char_def)

lemma get_meta_system_prompt_step_differs:
  assumes "hd (str_int c) \<noteq> hd (str_int c')" "str_int c \<noteq> []" "str_int c' \<noteq> []" 
  shows "get_meta_system_prompt obj c m st tools \<noteq> get_meta_system_prompt obj c' m' st' tools'"
proof -
  obtain r1 where 1: "get_meta_system_prompt obj c m st tools = 
     join newline role_lines @ newline @ ''- Objective: '' @ obj @ newline @
     ''- Current Step: '' @ str_int c @ ''/'' @ str_int m @ newline @ r1"
    using get_meta_system_prompt_split by blast
  obtain r2 where 2: "get_meta_system_prompt obj c' m' st' tools' = 
     join newline role_lines @ newline @ ''- Objective: '' @ obj @ newline @
     ''- Current Step: '' @ str_int c' @ ''/'' @ str_int m' @ newline @ r2"
    using get_meta_system_prompt_split by blast
  from assms obtain x xs y ys where "str_int c = x # xs" "str_int c' = y # ys" "x \<noteq> y"
    by (cases "str_int c"; cases "str_int c'") auto
  then show ?thesis unfolding 1 2 by simp
qed

lemma init_example:
  "init example_tools no_memories ''remote'' (Some ''x'') M None = Inr (example_agent M, [])"
  by (simp add: init_def initialize_context_def no_memories_def example_tools_def
      example_agent_def tool_label_def Let_def)

lemma call_current_step: "current_step (fst (fst (call eng w m))) = current_step (fst w) + 1"
  by (simp add: call_def Let_def split: option.split)

lemma call_frame:
  "objective (fst (fst (call eng w m))) = objective (fst w)"
  "max_steps (fst (fst (call eng w m))) = max_steps (fst w)"
  "server_type (fst (fst (call eng w m))) = server_type (fst w)"
  "tools_list (fst (fst (call eng w m))) = tools_list (fst w)"
  by (simp_all add: call_def Let_def split: option.split)

lemma call_system_prompt:
  "objective (fst w) = Some obj \<Longrightarrow> obj \<noteq> [] \<Longrightarrow>
   system_prompt (fst (fst (call eng w m))) =
     (if current_step (fst w) + 1 \<le> max_steps (fst w)
      then get_meta_system_prompt obj (current_step (fst w) + 1) (max_steps (fst w))
             (server_type (fst w)) (Some (tools_list (fst w)))
      else system_prompt (fst w))"
  by (simp add: call_def Let_def)

lemma call_requests:
  "snd (fst (call eng w m)) =
     snd w @ [(system_prompt (fst (fst (call eng w m))),
               case m of
                 Some t \<Rightarrow> t
               | None \<Rightarrow>
                   (case objective (fst w) of
                      None \<Rightarrow> ''How can I help you today?''
                    | Some obj \<Rightarrow>
                        if obj \<noteq> []
                        then ''Continue working on the objective. This is step '' @
                               str_int (current_step (fst w) + 1) @ '' of '' @
                               str_int (max_steps (fst w)) @ ''.''
                        else ''How can I help you today?''))]"
  by (simp add: call_def Let_def split: option.split)

lemma call_outcome: "snd (call eng w m) = eng (snd (fst (call eng w m)))"
  by (simp add: call_def Let_def)

lemma turns_current_step:
  "current_step (fst (turns eng w ms)) = current_step (fst w) + int (length ms)"
  by (induction ms arbitrary: w) (simp_all add: call_current_step)

lemma turns_frame:
  "objective (fst (turns eng w ms)) = objective (fst w)"
  "max_steps (fst (turns eng w ms)) = max_steps (fst w)"
  "server_type (fst (turns eng w ms)) = server_type (fst w)"
  "tools_list (fst (turns eng w ms)) = tools_list (fst w)"
  by (induction ms arbitrary: w) (simp_all add: call_frame)

lemma turns_snoc: "turns eng w (ms @ [m]) = fst (call eng (turns eng w ms) m)"
  by (induction ms arbitrary: w) simp_all

lemma turns_system_prompt:
  assumes obj: "objective (fst w) = Some obj" "obj \<noteq> []"
  shows "system_prompt (fst (turns eng w ms)) =
     (if ms = [] \<or> max_steps (fst w) < current_step (fst w) + 1
      then system_prompt (fst w)
      else get_meta_system_prompt obj
             (min (current_step (fst w) + int (length ms)) (max_steps (fst w)))
             (max_steps (fst w)) (server_type (fst w)) (Some (tools_list (fst w))))"
proof (induction ms rule: rev_induct)
  case Nil
  show ?case by simp
next
  case (snoc m ms)
  let ?W = "turns eng w ms"
  let ?c = "current_step (fst w)" and ?M = "max_steps (fst w)"
  let ?n = "int (length ms)"
  have W: "objective (fst ?W) = Some obj" "max_steps (fst ?W) = ?M"
    "server_type (fst ?W) = server_type (fst w)" "tools_list (fst ?W) = tools_list (fst w)"
    "current_step (fst ?W) = ?c + ?n"
    using obj by (simp_all add: turns_frame turns_current_step)
  have step: "system_prompt (fst (turns eng w (ms @ [m]))) =
      (if ?c + ?n + 1 \<le> ?M
       then get_meta_system_prompt obj (?c + ?n + 1) ?M (server_type (fst w))
              (Some (tools_list (fst w)))
       else system_prompt (fst ?W))"
    unfolding turns_snoc using call_system_prompt [OF W(1) obj(2), of eng m] by (simp add: W)
  show ?case
  proof (cases "?c + ?n + 1 \<le> ?M")
    case True
    then have "min (?c + int (length (ms @ [m]))) ?M = ?c + ?n + 1" "\<not> ?M < ?c + 1"
      by simp_all
    with True step show ?thesis by (simp add: algebra_simps)
  next
    case over: False
    show ?thesis
    proof (cases "?M < ?c + 1")
      case True
      with over step snoc.IH show ?thesis by (simp add: algebra_simps)
    next
      case False
      with over have ne: "ms \<noteq> []" by auto
      from over False have "min (?c + ?n) ?M = ?M" "min (?c + int (length (ms @ [m]))) ?M = ?M"
        by simp_all
      with over False ne step snoc.IH show ?thesis by (simp add: algebra_simps)
    qed
  qed
qed

lemma init_fields:
  assumes "init tools mem0_memory st objective' M extra = Inr (a, records)"
  shows "current_step a = 0" "max_steps a = M" "objective a = objective'" "server_type a = st"
    "created_tools a = []" "spawned_agents a = []" "learning_count a = 0"
    "system_prompt a =
       (case objective' of
          None \<Rightarrow> ''You are MetaAgent, an adaptive AI system.''
        | Some obj \<Rightarrow>
            if obj \<noteq> [] then get_meta_system_prompt obj 1 M st (Some (tools_list a))
            else ''You are MetaAgent, an adaptive AI system.'')"
  using assms
  by (auto simp: init_def Let_def split: option.splits if_splits sum.splits)

text \<open>
  What is not an instance of \<^verbatim>\<open>Exception\<close> passes the handler of
  \<open>initialize_context\<close> and leaves the constructor.
\<close>

lemma base_exception_leaves_init:
  assumes "mem0_memory ''retrieve'' obj ''meta_agent'' = Inl (BaseException e)" "obj \<noteq> []"
  shows "init tools mem0_memory st (Some obj) M extra = Inl (BaseException e)"
  using assms by (simp add: init_def initialize_context_def Let_def)

section \<open>The urgency level\<close>

text \<open>
  Claim C1. For every integer number of remaining steps \<open>r\<close>, the urgency level is
  HIGH when \<open>r < 3\<close> (every negative number included), MEDIUM when \<open>3 \<le> r < 7\<close>
  and LOW when \<open>7 \<le> r\<close>; at the boundaries, 7 gives LOW, 6 and 3 give MEDIUM and 2
  gives HIGH. The number classified by \<open>get_meta_system_prompt\<close> is
  \<open>max_steps - current_step\<close>: the prompt it returns is the template filled with
  that number and its level.
\<close>

theorem urgency_thresholds:
  "(r < 3 \<longrightarrow> urgency r = ''HIGH'') \<and>
   (3 \<le> r \<and> r < 7 \<longrightarrow> urgency r = ''MEDIUM'') \<and>
   (7 \<le> r \<longrightarrow> urgency r = ''LOW'') \<and>
   urgency 7 = ''LOW'' \<and> urgency 6 = ''MEDIUM'' \<and> urgency 3 = ''MEDIUM'' \<and>
   urgency 2 = ''HIGH'' \<and>
   (\<exists>tc sc. get_meta_system_prompt obj cs ms st tools =
      prompt_text obj cs ms (ms - cs) (urgency (ms - cs)) st tc sc)"
proof -
  have "\<exists>tc sc. get_meta_system_prompt obj cs ms st tools =
      prompt_text obj cs ms (ms - cs) (urgency (ms - cs)) st tc sc"
    unfolding get_meta_system_prompt_def Let_def by blast
  then show ?thesis by (simp add: urgency_def)
qed

theorem urgency_thresholds_witness:
  "urgency (- 4) = ''HIGH'' \<and> urgency 5 = ''MEDIUM'' \<and> urgency 12 = ''LOW''"
  using urgency_thresholds [of "- 4"] urgency_thresholds [of 5] urgency_thresholds [of 12]
  by simp

section \<open>reset\<close>

text \<open>
  Claim C6. In every state, \<open>reset\<close> sets \<open>current_step\<close> to 0 and empties the
  accumulators of the execution summary (the created tools, the spawned agents, the
  learning count), and leaves \<open>max_steps\<close> and the objective as they were. The server
  type, the tool list and the system prompt are untouched too.
\<close>

theorem reset_clears_progress:
  "current_step (reset a) = 0 \<and> created_tools (reset a) = [] \<and>
   spawned_agents (reset a) = [] \<and> learning_count (reset a) = 0 \<and>
   max_steps (reset a) = max_steps a \<and> objective (reset a) = objective a \<and>
   server_type (reset a) = server_type a \<and> tools_list (reset a) = tools_list a \<and>
   system_prompt (reset a) = system_prompt a \<and>
   get_execution_summary (reset a) =
     \<lparr>steps_taken = 0, tools_created = [], agents_spawned = [], learnings_stored = 0\<rparr>"
  by (simp add: reset_def get_execution_summary_def)

section \<open>Failures of the collaborators\<close>

text \<open>
  Claim C7. When the memory retrieval of the constructor raises an exception (an
  instance of \<^verbatim>\<open>Exception\<close>, the class the handler names), for a session with an
  objective, the exception is caught and logged as one warning, the construction
  succeeds, and the agent is the one constructed when the store has nothing: it starts
  unprimed, at step 0, with the prompt rendered from the arguments alone.
\<close>

theorem memory_failure_is_caught:
  assumes "mem0_memory ''retrieve'' obj ''meta_agent'' = Inl (Exception e)" "obj \<noteq> []"
  shows "\<exists>a. init tools mem0_memory st (Some obj) M extra =
            Inr (a, [(WARNING, ''Memory initialization failed: '' @ e)]) \<and>
          init tools no_memories st (Some obj) M extra = Inr (a, []) \<and>
          current_step a = 0 \<and>
          system_prompt a = get_meta_system_prompt obj 1 M st (Some (tools_list a))"
  using assms by (simp add: init_def initialize_context_def no_memories_def Let_def)

theorem memory_failure_is_caught_witness:
  "init example_tools failing_memory ''remote'' (Some ''x'') 10 None =
     Inr (example_agent 10, [(WARNING, ''Memory initialization failed: store offline'')])"
proof -
  have "failing_memory ''retrieve'' ''x'' ''meta_agent'' = Inl (Exception ''store offline'')"
    by (simp add: failing_memory_def)
  from memory_failure_is_caught
    [where mem0_memory = failing_memory and obj = "''x''" and e = "''store offline''"
       and tools = example_tools and st = "''remote''" and M = 10 and extra = None, OF this]
  show ?thesis using init_example [of 10] by auto
qed

text \<open>
  Claim C8. Whatever the delegated reasoning turn raises leaves \<open>call\<close> as it is: the
  driver has no handler. The turn was delegated once (one request is added, no retry),
  and the step counter keeps its increment.
\<close>

theorem turn_exception_propagates:
  assumes "super_call (snd (fst (call super_call w message))) = Inl x"
  shows "snd (call super_call w message) = Inl x \<and>
         (\<exists>request. snd (fst (call super_call w message)) = snd w @ [request]) \<and>
         current_step (fst (fst (call super_call w message))) = current_step (fst w) + 1"
  using assms by (simp add: call_outcome call_current_step call_requests)

theorem turn_exception_propagates_witness:
  "snd (call failing_engine (example_agent 10, []) None) = Inl (Exception ''model unavailable'') \<and>
   length (snd (fst (call failing_engine (example_agent 10, []) None))) = 1 \<and>
   current_step (fst (fst (call failing_engine (example_agent 10, []) None))) = 1"
proof -
  have "failing_engine (snd (fst (call failing_engine (example_agent 10, []) None))) =
      Inl (Exception ''model unavailable'')"
    by (simp add: failing_engine_def)
  from turn_exception_propagates
    [where super_call = failing_engine and w = "(example_agent 10, [])" and message = None, OF this]
  show ?thesis
    by (auto simp: example_agent_def)
qed

section \<open>The messages and prompts of a turn\<close>

text \<open>
  Claim C9. A turn invoked with no message on a session with an objective delegates the
  message \<^verbatim>\<open>Continue working on the objective. This is step X of Y.\<close> where \<open>X\<close> is
  the step counter of this turn (the previous one plus 1) and \<open>Y\<close> is \<open>max_steps\<close>:
  the message contains the text \<^verbatim>\<open>step X of Y\<close>.
\<close>

theorem continuation_message_names_step:
  assumes "objective (fst w) = Some obj" "obj \<noteq> []"
  shows "let w' = fst (call super_call w None); message = snd (last (snd w')) in
     message = ''Continue working on the objective. This is step '' @
       str_int (current_step (fst w')) @ '' of '' @ str_int (max_steps (fst w')) @ ''.'' \<and>
     (\<exists>pre suf. message =
        pre @ ''step '' @ str_int (current_step (fst w')) @ '' of '' @
        str_int (max_steps (fst w')) @ suf) \<and>
     current_step (fst w') = current_step (fst w) + 1 \<and>
     max_steps (fst w') = max_steps (fst w) \<and>
     snd w' = snd w @ [(system_prompt (fst w'), message)]"
proof -
  let ?w' = "fst (call super_call w None)"
  let ?m = "snd (last (snd ?w'))"
  have m: "?m = ''Continue working on the objective. This is step '' @
       str_int (current_step (fst ?w')) @ '' of '' @ str_int (max_steps (fst ?w')) @ ''.''"
    using assms by (simp add: call_requests call_current_step call_frame)
  have "?m = ''Continue working on the objective. This is '' @ ''step '' @
       str_int (current_step (fst ?w')) @ '' of '' @ str_int (max_steps (fst ?w')) @ ''.''"
    unfolding m by simp
  then have ex: "\<exists>pre suf. ?m =
        pre @ ''step '' @ str_int (current_step (fst ?w')) @ '' of '' @
        str_int (max_steps (fst ?w')) @ suf"
    by blast
  have req: "snd ?w' = snd w @ [(system_prompt (fst ?w'), ?m)]"
    using assms by (simp add: call_requests)
  show ?thesis
    unfolding Let_def using m ex req by (simp add: call_current_step call_frame)
qed

theorem continuation_message_names_step_witness:
  "snd (last (snd (fst (call answering_engine
      (turns answering_engine (example_agent 10, []) [None, None, None]) None)))) =
   ''Continue working on the objective. This is step 4 of 10.''"
proof -
  let ?w = "turns answering_engine (example_agent 10, []) [None, None, None]"
  have 1: "objective (fst ?w) = Some ''x''" by (simp add: call_frame example_agent_def)
  have 2: "''x'' \<noteq> []" by simp
  have 3: "current_step (fst ?w) = 3" by (simp add: call_current_step example_agent_def)
  have 4: "max_steps (fst ?w) = 10" by (simp add: call_frame example_agent_def)
  from continuation_message_names_step [OF 1 2, of answering_engine] show ?thesis
    unfolding Let_def by (simp add: 3 4 str_int_digits del: turns.simps)
qed

text \<open>
  Claim C10. A session constructed with an objective starts with the step counter at 0
  and with the system prompt rendered for step 1. The prompt a first turn renders, from
  the counters of that turn and the same objective, maximum, server type and tool list,
  is that same text, so the first turn delegates with the prompt of the construction.
\<close>

theorem construction_prompt_is_first_turn_prompt:
  assumes "init tools mem0_memory st (Some obj) M extra = Inr (a, records)" "obj \<noteq> []"
  shows "current_step a = 0 \<and>
     system_prompt a = get_meta_system_prompt obj 1 M st (Some (tools_list a)) \<and>
     (let w' = fst (call super_call (a, []) message); a' = fst w' in
        current_step a' = 1 \<and>
        get_meta_system_prompt obj (current_step a') (max_steps a') (server_type a')
          (Some (tools_list a')) = system_prompt a \<and>
        system_prompt a' = system_prompt a \<and>
        fst (last (snd w')) = system_prompt a)"
proof -
  note f = init_fields [OF assms(1)]
  have sp: "system_prompt a = get_meta_system_prompt obj 1 M st (Some (tools_list a))"
    using f(8) assms(2) by simp
  have obj: "objective (fst (a, [])) = Some obj" using f(3) by simp
  have "system_prompt (fst (fst (call super_call (a, []) message))) = system_prompt a"
    using call_system_prompt [OF obj assms(2), of super_call message] f sp by simp
  then show ?thesis
    unfolding Let_def using f sp by (simp add: call_current_step call_frame call_requests)
qed

theorem construction_prompt_is_first_turn_prompt_witness:
  "current_step (example_agent 10) = 0 \<and>
   system_prompt (fst (fst (call answering_engine (example_agent 10, []) None))) =
     system_prompt (example_agent 10) \<and>
   system_prompt (example_agent 10) =
     get_meta_system_prompt ''x'' 1 10 ''remote'' (Some ''shell, <module stop>'')"
proof -
  have "''x'' \<noteq> []" by simp
  from construction_prompt_is_first_turn_prompt [OF init_example this, of 10 answering_engine None]
  show ?thesis unfolding Let_def by (simp add: example_agent_def)
qed

section \<open>Turns beyond the step budget\<close>

text \<open>
  Claim C2 as it is stated asks that the prompt be regenerated on every turn, also on a
  turn whose step counter exceeds \<open>max_steps\<close>. Line 154 guards the regeneration with
  \<^verbatim>\<open>self.current_step <= self.max_steps\<close>. A session constructed with objective
  \<^verbatim>\<open>x\<close> and \<open>max_steps = 1\<close>: on its second turn the counter is 2, nothing is
  rendered, and the prompt of step 1 stays in force.
\<close>

theorem prompt_kept_over_budget:
  "init example_tools no_memories ''remote'' (Some ''x'') 1 None = Inr (example_agent 1, []) \<and>
   current_step (fst (fst (call answering_engine
      (fst (call answering_engine (example_agent 1, []) None)) None))) = 2 \<and>
   system_prompt (fst (fst (call answering_engine
      (fst (call answering_engine (example_agent 1, []) None)) None))) =
     get_meta_system_prompt ''x'' 1 1 ''remote'' (Some ''shell, <module stop>'') \<and>
   system_prompt (fst (fst (call answering_engine
      (fst (call answering_engine (example_agent 1, []) None)) None))) \<noteq>
     get_meta_system_prompt ''x'' 2 1 ''remote'' (Some ''shell, <module stop>'')"
proof -
  have ne: "get_meta_system_prompt ''x'' 1 1 ''remote'' (Some ''shell, <module stop>'') \<noteq>
      get_meta_system_prompt ''x'' 2 1 ''remote'' (Some ''shell, <module stop>'')"
    by (rule get_meta_system_prompt_step_differs) (simp_all add: str_int_digits)
  have sp: "system_prompt (fst (fst (call answering_engine
      (fst (call answering_engine (example_agent 1, []) None)) None))) =
     get_meta_system_prompt ''x'' 1 1 ''remote'' (Some ''shell, <module stop>'')"
    by (simp add: call_def Let_def example_agent_def)
  show ?thesis
    using ne by (simp add: sp init_example call_current_step) (simp add: example_agent_def)
qed

text \<open>
  Claim C2, amended. On a turn of a session with an objective whose step counter (after
  the increment) is at most \<open>max_steps\<close>, the system prompt is rendered anew from the
  counters of the turn and replaces the previous one; on a turn whose counter exceeds
  \<open>max_steps\<close> the system prompt is left as it was. In both cases the prompt in force
  is the one the turn is delegated with.
\<close>

theorem prompt_regenerated_within_budget:
  assumes "objective (fst w) = Some obj" "obj \<noteq> []"
  shows "let w' = fst (call super_call w message); a' = fst w' in
     (current_step a' \<le> max_steps a' \<longrightarrow>
        system_prompt a' =
          get_meta_system_prompt obj (current_step a') (max_steps a') (server_type a')
            (Some (tools_list a'))) \<and>
     (max_steps a' < current_step a' \<longrightarrow> system_prompt a' = system_prompt (fst w)) \<and>
     current_step a' = current_step (fst w) + 1 \<and>
     fst (last (snd w')) = system_prompt a'"
  unfolding Let_def
  using call_system_prompt [OF assms, of super_call message]
  by (simp add: call_current_step call_frame call_requests)

theorem prompt_regenerated_within_budget_witness:
  "system_prompt (fst (fst (call answering_engine (example_agent 10, []) None))) =
     get_meta_system_prompt ''x'' 1 10 ''remote'' (Some ''shell, <module stop>'') \<and>
   system_prompt (fst (fst (call answering_engine (example_agent 0, []) None))) =
     system_prompt (example_agent 0)"
proof -
  have o: "objective (fst (example_agent M, [])) = Some ''x''" for M
    by (simp add: example_agent_def)
  have x: "''x'' \<noteq> []" by simp
  from prompt_regenerated_within_budget
      [OF o [of 10] x, where super_call = answering_engine and message = None]
    prompt_regenerated_within_budget
      [OF o [of 0] x, where super_call = answering_engine and message = None]
  show ?thesis
    unfolding Let_def by (simp add: call_current_step call_frame) (simp add: example_agent_def)
qed

text \<open>
  Claim C3 as it is stated bounds the step counter by \<open>max_steps + 1\<close>. Line 152
  increments it on every turn and nothing stops the turns: with \<open>max_steps = 1\<close>, three
  turns leave the counter at 3.
\<close>

theorem current_step_passes_bound:
  "init example_tools no_memories ''remote'' (Some ''x'') 1 None = Inr (example_agent 1, []) \<and>
   current_step (fst (turns answering_engine (example_agent 1, []) [None, None, None])) = 3 \<and>
   max_steps (fst (turns answering_engine (example_agent 1, []) [None, None, None])) = 1 \<and>
   \<not> current_step (fst (turns answering_engine (example_agent 1, []) [None, None, None]))
       \<le> max_steps (fst (turns answering_engine (example_agent 1, []) [None, None, None])) + 1"
  by (simp add: init_example turns_current_step turns_frame del: turns.simps)
     (simp add: example_agent_def)

text \<open>
  Claim C3, amended. In the state a session reaches from its construction by \<open>n\<close>
  turns, whatever the turns returned or raised, \<open>current_step = n\<close> and \<open>max_steps\<close>
  is unchanged; so \<open>current_step \<le> max_steps + 1\<close> holds exactly as long as
  \<open>n \<le> max_steps + 1\<close>.
\<close>

theorem current_step_counts_turns:
  assumes "init tools mem0_memory st objective' M extra = Inr (a, records)"
  shows "let a' = fst (turns super_call (a, []) messages) in
     current_step a' = int (length messages) \<and> max_steps a' = M \<and>
     (current_step a' \<le> max_steps a' + 1 \<longleftrightarrow> int (length messages) \<le> M + 1)"
  unfolding Let_def using init_fields(1,2) [OF assms]
  by (simp add: turns_current_step turns_frame)

theorem current_step_counts_turns_witness:
  "current_step (fst (turns failing_engine (example_agent 10, []) [None, Some ''go on'', None])) = 3 \<and>
   max_steps (fst (turns failing_engine (example_agent 10, []) [None, Some ''go on'', None])) = 10"
  using current_step_counts_turns
    [OF init_example [of 10], where super_call = failing_engine
       and messages = "[None, Some ''go on'', None]"]
  unfolding Let_def by (simp del: turns.simps)

text \<open>
  Claim C5 as it is stated has, after \<open>N\<close> turns, the number \<open>M - N\<close> classified,
  negative numbers included. With \<open>M = 2\<close> and \<open>N = 3\<close> the counter is 3, but the
  third turn renders nothing: the prompt in force is the one of step 2, made with 0
  remaining steps, and not the one \<open>- 1\<close> remaining steps would give.
\<close>

theorem remaining_not_negative_over_budget:
  "init example_tools no_memories ''remote'' (Some ''x'') 2 None = Inr (example_agent 2, []) \<and>
   current_step (fst (turns answering_engine (example_agent 2, []) [None, None, None])) = 3 \<and>
   system_prompt (fst (turns answering_engine (example_agent 2, []) [None, None, None])) =
     prompt_text ''x'' 2 2 0 ''HIGH'' ''remote''
       (newline @ ''- Available Tools: shell, <module stop>'') swarm_config_remote \<and>
   system_prompt (fst (turns answering_engine (example_agent 2, []) [None, None, None])) \<noteq>
     get_meta_system_prompt ''x'' 3 2 ''remote'' (Some ''shell, <module stop>'')"
proof -
  let ?a = "fst (turns answering_engine (example_agent 2, []) [None, None, None])"
  have o: "objective (fst (example_agent 2, [])) = Some ''x''"
    by (simp add: example_agent_def)
  have x: "''x'' \<noteq> []" by simp
  have sp: "system_prompt ?a = get_meta_system_prompt ''x'' 2 2 ''remote'' (Some ''shell, <module stop>'')"
    unfolding turns_system_prompt [OF o x] by (simp add: example_agent_def)
  have ne: "get_meta_system_prompt ''x'' 2 2 ''remote'' (Some ''shell, <module stop>'') \<noteq>
      get_meta_system_prompt ''x'' 3 2 ''remote'' (Some ''shell, <module stop>'')"
    by (rule get_meta_system_prompt_step_differs) (simp_all add: str_int_digits)
  have pt: "get_meta_system_prompt ''x'' 2 2 ''remote'' (Some ''shell, <module stop>'') =
      prompt_text ''x'' 2 2 0 ''HIGH'' ''remote''
       (newline @ ''- Available Tools: shell, <module stop>'') swarm_config_remote"
    by (simp add: get_meta_system_prompt_def urgency_def)
  have cs: "current_step ?a = 3"
    by (simp add: turns_current_step del: turns.simps) (simp add: example_agent_def)
  show ?thesis using ne by (simp add: init_example cs sp pt [symmetric] del: turns.simps)
qed

text \<open>
  Claim C5, amended. After \<open>N\<close> turns of a session constructed with an objective and
  \<open>max_steps = M\<close>, \<open>current_step = N\<close>. When \<open>1 \<le> N \<le> M\<close>, turn \<open>N\<close> classified
  \<open>M - N\<close> remaining steps, a number that is not negative, and the prompt in force is
  the template filled with it and its level (with \<open>M = 10\<close>: 9 and LOW after the first
  turn, 2 and HIGH after 8 turns). When \<open>N > M \<ge> 1\<close>, the prompt in force is still the
  one of turn \<open>M\<close>, with 0 remaining steps and level HIGH; before the first turn, or
  when \<open>M < 1\<close>, it is the prompt of the construction.
\<close>

theorem remaining_steps_within_budget:
  assumes "init tools mem0_memory st (Some obj) M extra = Inr (a, records)" "obj \<noteq> []"
  shows "let N = int (length messages); a' = fst (turns super_call (a, []) messages) in
     current_step a' = N \<and>
     (1 \<le> N \<and> N \<le> M \<longrightarrow>
        0 \<le> M - N \<and>
        (\<exists>tc sc. system_prompt a' = prompt_text obj N M (M - N) (urgency (M - N)) st tc sc)) \<and>
     (1 \<le> M \<and> M < N \<longrightarrow>
        (\<exists>tc sc. system_prompt a' = prompt_text obj M M 0 ''HIGH'' st tc sc)) \<and>
     (N = 0 \<or> M < 1 \<longrightarrow> system_prompt a' = system_prompt a)"
proof -
  note f = init_fields [OF assms(1)]
  have o: "objective (fst (a, [])) = Some obj" using f(3) by simp
  note sp = turns_system_prompt [OF o assms(2), of super_call messages]
  have render: "\<exists>tc sc. get_meta_system_prompt obj c M st (Some (tools_list a)) =
      prompt_text obj c M (M - c) (urgency (M - c)) st tc sc" for c
    unfolding get_meta_system_prompt_def Let_def by blast
  have 1: "current_step (fst (turns super_call (a, []) messages)) = int (length messages)"
    using f(1) by (simp add: turns_current_step)
  have 2: "\<exists>tc sc. system_prompt (fst (turns super_call (a, []) messages)) =
      prompt_text obj (int (length messages)) M (M - int (length messages))
        (urgency (M - int (length messages))) st tc sc"
    if "1 \<le> int (length messages)" "int (length messages) \<le> M"
  proof -
    from that have "messages \<noteq> []" "min (int (length messages)) M = int (length messages)"
      by auto
    with that sp f show ?thesis using render [of "int (length messages)"] by simp
  qed
  have 3: "\<exists>tc sc. system_prompt (fst (turns super_call (a, []) messages)) =
      prompt_text obj M M 0 ''HIGH'' st tc sc"
    if "1 \<le> M" "M < int (length messages)"
  proof -
    from that have "messages \<noteq> []" "min (int (length messages)) M = M"
      by auto
    with that sp f show ?thesis using render [of M] by (simp add: urgency_def)
  qed
  have 4: "system_prompt (fst (turns super_call (a, []) messages)) = system_prompt a"
    if "int (length messages) = 0 \<or> M < 1"
    using that sp f by auto
  show ?thesis unfolding Let_def using 1 2 3 4 by auto
qed

theorem remaining_steps_within_budget_witness:
  "(\<exists>tc sc. system_prompt (fst (turns answering_engine (example_agent 10, []) [None])) =
      prompt_text ''x'' 1 10 9 ''LOW'' ''remote'' tc sc) \<and>
   (\<exists>tc sc. system_prompt (fst (turns answering_engine (example_agent 10, [])
        [None, None, None, None, None, None, None, None])) =
      prompt_text ''x'' 8 10 2 ''HIGH'' ''remote'' tc sc) \<and>
   current_step (fst (turns answering_engine (example_agent 10, [])
        [None, None, None, None, None, None, None, None])) = 8 \<and>
   (\<exists>tc sc. system_prompt (fst (turns answering_engine (example_agent 2, [])
        [None, None, None])) =
      prompt_text ''x'' 2 2 0 ''HIGH'' ''remote'' tc sc) \<and>
   system_prompt (fst (turns answering_engine (example_agent 0, []) [None])) =
     system_prompt (example_agent 0)"
proof -
  have x: "''x'' \<noteq> []" by simp
  from remaining_steps_within_budget
      [OF init_example [of 10] x, where messages = "[None]" and super_call = answering_engine]
    remaining_steps_within_budget
      [OF init_example [of 10] x, where super_call = answering_engine
         and messages = "[None, None, None, None, None, None, None, None]"]
    remaining_steps_within_budget
      [OF init_example [of 2] x, where super_call = answering_engine
         and messages = "[None, None, None]"]
    remaining_steps_within_budget
      [OF init_example [of 0] x, where super_call = answering_engine and messages = "[None]"]
  show ?thesis unfolding Let_def by (simp add: urgency_def del: turns.simps)
qed

end
